theory Spec2Isabelle
  imports Complex_Main "HOL-Library.Log_Nat"
begin

section \<open>Text: Python \<open>str\<close> over the code points 0..255\<close>

text \<open>
  A Python \<open>str\<close> is a sequence of code points. The model takes \<open>string\<close>, whose
  characters are the code points 0 to 255; on these the character classes below are the
  ones of Python 3 (\<open>str.lower\<close>, \<open>str.strip\<close>, and \<open>\s\<close>, \<open>\d\<close>, \<open>\w\<close> of the
  \<open>re\<close> module on \<open>str\<close> patterns).
\<close>

definition is_space :: "char \<Rightarrow> bool" where
  \<comment> \<open>\<open>\s\<close>, and what \<open>str.strip()\<close> removes: TAB..CR, FS..US, space, NEL, NBSP\<close>
  "is_space c = (let n = (of_char c :: nat) in
     (9 \<le> n \<and> n \<le> 13) \<or> (28 \<le> n \<and> n \<le> 32) \<or> n = 133 \<or> n = 160)"

definition is_digit :: "char \<Rightarrow> bool" where
  \<comment> \<open>\<open>\d\<close>: the only decimal digits below 256 are 0-9\<close>
  "is_digit c = (let n = (of_char c :: nat) in 48 \<le> n \<and> n \<le> 57)"

definition is_alpha :: "char \<Rightarrow> bool" where
  \<comment> \<open>the class \<open>[A-Za-z]\<close>\<close>
  "is_alpha c = (let n = (of_char c :: nat) in (65 \<le> n \<and> n \<le> 90) \<or> (97 \<le> n \<and> n \<le> 122))"

definition is_word :: "char \<Rightarrow> bool" where
  \<comment> \<open>\<open>\w\<close>, which decides \<open>\b\<close>: alphanumeric code points and the underscore\<close>
  "is_word c = (let n = (of_char c :: nat) in
     is_digit c \<or> is_alpha c \<or> n = 95 \<or> n = 170 \<or> n = 178 \<or> n = 179 \<or> n = 181 \<or>
     n = 185 \<or> n = 186 \<or> (188 \<le> n \<and> n \<le> 190) \<or> (192 \<le> n \<and> n \<le> 214) \<or>
     (216 \<le> n \<and> n \<le> 246) \<or> (248 \<le> n \<and> n \<le> 255))"

definition lower_chr :: "char \<Rightarrow> char" where
  \<comment> \<open>\<open>str.lower\<close> on one code point: A-Z and the Latin-1 capitals move up by 32\<close>
  "lower_chr c = (let n = (of_char c :: nat) in
     if (65 \<le> n \<and> n \<le> 90) \<or> (192 \<le> n \<and> n \<le> 214) \<or> (216 \<le> n \<and> n \<le> 222)
     then char_of (n + 32) else c)"

definition lower :: "string \<Rightarrow> string" where
  "lower s = map lower_chr s"

definition strip :: "string \<Rightarrow> string" where
  "strip s = rev (dropWhile is_space (rev (dropWhile is_space s)))"

definition replace_chr :: "char \<Rightarrow> string \<Rightarrow> string \<Rightarrow> string" where
  \<comment> \<open>\<open>s.replace(old, new)\<close> for a one-character \<open>old\<close>\<close>
  "replace_chr old new s = concat (map (\<lambda>c. if c = old then new else [c]) s)"

primrec starts_with :: "string \<Rightarrow> string \<Rightarrow> bool" where
  "starts_with [] s = True"
| "starts_with (k # ks) s = (case s of [] \<Rightarrow> False | c # t \<Rightarrow> k = c \<and> starts_with ks t)"

primrec contains :: "string \<Rightarrow> string \<Rightarrow> bool" where
  \<comment> \<open>\<open>k in s\<close>\<close>
  "contains k [] = (k = [])"
| "contains k (c # t) = (starts_with k (c # t) \<or> contains k t)"

section \<open>Regular expressions with the backtracking order of \<open>re\<close>\<close>

text \<open>
  The patterns of the program use literals, character classes, greedy repetition of a
  class, alternation, optional parts, capture groups and \<open>\b\<close>. A match state is the
  captures made so far, the character before the current position (for \<open>\b\<close>) and the
  rest of the input. \<open>ms\<close> lists the states a pattern can end in, in the order in which a
  backtracking matcher tries them: the first alternative before the second, the longest
  repetition before the shorter ones, a present optional part before its absence.
\<close>

datatype regex =
    Lit char
  | Class "char \<Rightarrow> bool"
  | Rep nat "nat option" "char \<Rightarrow> bool"
  | Seq regex regex
  | Alt regex regex
  | Opt regex
  | Group nat regex
  | WordB
  | Eps

type_synonym caps = "(nat \<times> string) list"
type_synonym mstate = "caps \<times> char option \<times> string"

definition word_before :: "char option \<Rightarrow> bool" where
  "word_before pv = (case pv of None \<Rightarrow> False | Some c \<Rightarrow> is_word c)"

definition word_after :: "string \<Rightarrow> bool" where
  "word_after s = (case s of [] \<Rightarrow> False | c # _ \<Rightarrow> is_word c)"

fun ms :: "bool \<Rightarrow> regex \<Rightarrow> mstate \<Rightarrow> mstate list" where
  "ms ic (Lit p) (cs, pv, s) =
     (case s of [] \<Rightarrow> []
      | c # t \<Rightarrow> if (if ic then lower_chr c = lower_chr p else c = p)
                 then [(cs, Some c, t)] else [])"
| "ms ic (Class P) (cs, pv, s) =
     (case s of [] \<Rightarrow> [] | c # t \<Rightarrow> if P c then [(cs, Some c, t)] else [])"
| "ms ic (Rep m n P) (cs, pv, s) =
     (let k = length (takeWhile P s);
          hi = (case n of None \<Rightarrow> k | Some b \<Rightarrow> min b k)
      in map (\<lambda>j. (cs, if j = 0 then pv else Some (s ! (j - 1)), drop j s))
             (rev [m..<Suc hi]))"
| "ms ic (Seq a b) st = concat (map (ms ic b) (ms ic a st))"
| "ms ic (Alt a b) st = ms ic a st @ ms ic b st"
| "ms ic (Opt a) st = ms ic a st @ [st]"
| "ms ic (Group g a) (cs, pv, s) =
     map (\<lambda>(cs', pv', s'). ((g, take (length s - length s') s) # cs', pv', s'))
         (ms ic a (cs, pv, s))"
| "ms ic WordB (cs, pv, s) =
     (if word_before pv \<noteq> word_after s then [(cs, pv, s)] else [])"
| "ms ic Eps st = [st]"

record rmatch =
  m_start :: nat
  m_text :: string
  m_groups :: caps

definition group :: "rmatch \<Rightarrow> nat \<Rightarrow> string option" where
  \<comment> \<open>\<open>m.group(n)\<close> for \<open>n > 0\<close>; \<open>None\<close> when the group took no part in the match\<close>
  "group m n = map_of (m_groups m) n"

definition mk_match :: "nat \<Rightarrow> string \<Rightarrow> mstate \<Rightarrow> rmatch" where
  "mk_match pos s st =
     (case st of (cs, pv, s') \<Rightarrow>
        \<lparr>m_start = pos, m_text = take (length s - length s') s, m_groups = cs\<rparr>)"

primrec search_from :: "bool \<Rightarrow> regex \<Rightarrow> nat \<Rightarrow> char option \<Rightarrow> string \<Rightarrow> rmatch option" where
  \<comment> \<open>the leftmost position where the pattern matches, with its first way of matching\<close>
  "search_from ic r pos pv [] =
     (case ms ic r ([], pv, []) of [] \<Rightarrow> None | st # _ \<Rightarrow> Some (mk_match pos [] st))"
| "search_from ic r pos pv (c # t) =
     (case ms ic r ([], pv, c # t) of
        [] \<Rightarrow> search_from ic r (Suc pos) (Some c) t
      | st # _ \<Rightarrow> Some (mk_match pos (c # t) st))"

definition search :: "bool \<Rightarrow> regex \<Rightarrow> string \<Rightarrow> rmatch option" where
  \<comment> \<open>\<open>pattern.search(s)\<close>; the flag is \<open>re.I\<close>\<close>
  "search ic r s = search_from ic r 0 None s"

function finditer_from :: "bool \<Rightarrow> regex \<Rightarrow> nat \<Rightarrow> char option \<Rightarrow> string \<Rightarrow> rmatch list" where
  "finditer_from ic r pos pv s =
     (case search_from ic r pos pv s of
        None \<Rightarrow> []
      | Some m \<Rightarrow>
          (if s = [] then [m]
           else (let k = max 1 (m_start m - pos + length (m_text m))
                 in m # finditer_from ic r (pos + k) (Some (s ! (k - 1))) (drop k s))))"
  by pat_completeness auto
termination
  by (relation "measure (\<lambda>(ic, r, pos, pv, s). length s)") auto

definition finditer :: "bool \<Rightarrow> regex \<Rightarrow> string \<Rightarrow> rmatch list" where
  \<comment> \<open>\<open>re.finditer(pattern, s)\<close>: the successive non-overlapping matches, left to right.
      No pattern scanned this way in the program matches the empty string; the step of at
      least one character only keeps the definition total.\<close>
  "finditer ic r s = finditer_from ic r 0 None s"

definition seqs :: "regex list \<Rightarrow> regex" where
  "seqs rs = foldr Seq rs Eps"

definition str :: "string \<Rightarrow> regex" where
  \<comment> \<open>the characters of a literal string, one after the other\<close>
  "str w = seqs (map Lit w)"

section \<open>Floating-point numbers: Python \<open>float\<close>\<close>

text \<open>
  A Python \<open>float\<close> is an IEEE 754 binary64 number. The model keeps the finite values as
  rationals and rounds the exact result of every operation to the nearest binary64 value,
  ties to the even significand, overflowing to an infinity. The two zeros are one value
  here: nothing in the program tells them apart (both are false, both equal \<open>0\<close>, and
  \<open>int\<close> gives \<open>0\<close> for both).
\<close>

datatype pyfloat = Fin rat | PInf | NInf | NaN

datatype error = ValueError | OverflowError | ZeroDivisionError

definition pow2 :: "int \<Rightarrow> rat" where
  "pow2 e = (if 0 \<le> e then 2 ^ nat e else 1 / 2 ^ nat (- e))"

definition ilog2 :: "rat \<Rightarrow> int" where
  \<comment> \<open>for \<open>x > 0\<close>, the exponent \<open>e\<close> with \<open>2^e \<le> x < 2^(e+1)\<close>\<close>
  "ilog2 x = (case quotient_of x of (p, q) \<Rightarrow>
     (let d = bitlen p - bitlen q
      in if pow2 d \<le> x then d else d - 1))"

definition round_half_even :: "rat \<Rightarrow> int" where
  "round_half_even y = (let n = \<lfloor>y\<rfloor>; r = y - of_int n in
     if r < 1 / 2 then n else if 1 / 2 < r then n + 1
     else if even n then n else n + 1)"

definition fl :: "rat \<Rightarrow> pyfloat" where
  \<comment> \<open>rounding to binary64: 53 significant bits, least exponent -1022 (subnormals below);
      a rounded value of \<open>2^1024\<close> or more is an overflow\<close>
  "fl x = (if x = 0 then Fin 0 else
     (let a = \<bar>x\<bar>;
          e = max (ilog2 a) (- 1022);
          u = pow2 (e - 52);
          n = round_half_even (a / u)
      in if 1024 \<le> e \<or> (e = 1023 \<and> n = 2 ^ 53) then (if 0 < x then PInf else NInf)
         else Fin (if 0 < x then of_int n * u else - (of_int n * u))))"

fun fneg :: "pyfloat \<Rightarrow> pyfloat" where
  "fneg (Fin a) = Fin (- a)"
| "fneg PInf = NInf"
| "fneg NInf = PInf"
| "fneg NaN = NaN"

fun fabs :: "pyfloat \<Rightarrow> pyfloat" where
  "fabs (Fin a) = Fin \<bar>a\<bar>"
| "fabs PInf = PInf"
| "fabs NInf = PInf"
| "fabs NaN = NaN"

fun fsign :: "pyfloat \<Rightarrow> int" where
  \<comment> \<open>-1, 0 or 1; not used on \<open>NaN\<close>\<close>
  "fsign (Fin a) = sgn \<lfloor>sgn a\<rfloor>"
| "fsign PInf = 1"
| "fsign NInf = - 1"
| "fsign NaN = 0"

fun fadd :: "pyfloat \<Rightarrow> pyfloat \<Rightarrow> pyfloat" where
  "fadd (Fin a) (Fin b) = fl (a + b)"
| "fadd NaN _ = NaN"
| "fadd _ NaN = NaN"
| "fadd PInf NInf = NaN"
| "fadd NInf PInf = NaN"
| "fadd PInf _ = PInf"
| "fadd NInf _ = NInf"
| "fadd _ PInf = PInf"
| "fadd _ NInf = NInf"

definition fsub :: "pyfloat \<Rightarrow> pyfloat \<Rightarrow> pyfloat" where
  "fsub x y = fadd x (fneg y)"

definition inf_of_sign :: "int \<Rightarrow> pyfloat" where
  "inf_of_sign k = (if k = 0 then NaN else if 0 < k then PInf else NInf)"

fun fmul :: "pyfloat \<Rightarrow> pyfloat \<Rightarrow> pyfloat" where
  "fmul (Fin a) (Fin b) = fl (a * b)"
| "fmul NaN _ = NaN"
| "fmul _ NaN = NaN"
| "fmul x y = inf_of_sign (fsign x * fsign y)"

fun fdiv :: "pyfloat \<Rightarrow> pyfloat \<Rightarrow> error + pyfloat" where
  \<comment> \<open>\<open>x / y\<close> raises \<open>ZeroDivisionError\<close> for a zero divisor\<close>
  "fdiv x (Fin b) =
     (if b = 0 then Inl ZeroDivisionError
      else (case x of Fin a \<Rightarrow> Inr (fl (a / b))
            | NaN \<Rightarrow> Inr NaN
            | _ \<Rightarrow> Inr (inf_of_sign (fsign x * fsign (Fin b)))))"
| "fdiv NaN _ = Inr NaN"
| "fdiv _ NaN = Inr NaN"
| "fdiv (Fin a) _ = Inr (Fin 0)"
| "fdiv _ _ = Inr NaN"

fun py_int :: "pyfloat \<Rightarrow> error + int" where
  \<comment> \<open>\<open>int(x)\<close>: truncation toward zero\<close>
  "py_int (Fin a) = Inr (if 0 \<le> a then \<lfloor>a\<rfloor> else - \<lfloor>- a\<rfloor>)"
| "py_int NaN = Inl ValueError"
| "py_int _ = Inl OverflowError"

definition falsy :: "pyfloat option \<Rightarrow> bool" where
  \<comment> \<open>\<open>not x\<close> for an \<open>Optional[float]\<close>: \<open>None\<close> and zero are false\<close>
  "falsy x = (x = None \<or> x = Some (Fin 0))"

definition digits_val :: "string \<Rightarrow> int" where
  "digits_val ds = foldl (\<lambda>a c. 10 * a + (of_char c - 48)) 0 ds"

definition py_float :: "string \<Rightarrow> error + pyfloat" where
  \<comment> \<open>\<open>float(s)\<close> on the strings the program converts, which hold only digits and dots
      (the commas are removed before): digits with at most one dot and at least one digit,
      correctly rounded; anything else there is a \<open>ValueError\<close>\<close>
  "py_float s =
     (let ip = takeWhile is_digit s; r = dropWhile is_digit s in
      case r of
        [] \<Rightarrow> if ip = [] then Inl ValueError else Inr (fl (of_int (digits_val ip)))
      | c # fr \<Rightarrow>
          if c = CHR ''.'' \<and> list_all is_digit fr \<and> (ip \<noteq> [] \<or> fr \<noteq> [])
          then Inr (fl (of_int (digits_val (ip @ fr)) / 10 ^ length fr))
          else Inl ValueError)"

section \<open>The program\<close>

subsection \<open>Configuration and patterns\<close>

definition RISK_PER_TRADE :: pyfloat where
  "RISK_PER_TRADE = fl (1 / 100)"

definition DEFAULT_UNITS :: int where
  "DEFAULT_UNITS = 100"

definition INSTRUMENT_MAP :: "(string \<times> string) list" where
  \<comment> \<open>the dict, in insertion order, which is the order of \<open>keys()\<close>\<close>
  "INSTRUMENT_MAP =
    [(''eurusd'', ''EUR_USD''), (''usdjpy'', ''USD_JPY''), (''gbpusd'', ''GBP_USD''),
     (''usdchf'', ''USD_CHF''), (''xauusd'', ''XAU_USD''), (''gold'', ''XAU_USD''),
     (''silver'', ''XAG_USD''), (''xagusd'', ''XAG_USD''), (''nas100'', ''NAS100_USD''),
     (''sp500'', ''SPX500_USD''), (''dow'', ''US30_USD'')]"

definition is_num_chr :: "char \<Rightarrow> bool" where
  \<comment> \<open>the class \<open>[\d.,]\<close>\<close>
  "is_num_chr c = (is_digit c \<or> c = CHR ''.'' \<or> c = CHR '','')"

definition is_sep_chr :: "char \<Rightarrow> bool" where
  \<comment> \<open>the class \<open>[:=\s]\<close>\<close>
  "is_sep_chr c = (c = CHR '':'' \<or> c = CHR ''='' \<or> is_space c)"

definition not_alnum :: "char \<Rightarrow> bool" where
  \<comment> \<open>the class \<open>[^A-Za-z0-9]\<close>\<close>
  "not_alnum c = (\<not> is_alpha c \<and> \<not> is_digit c)"

definition not_hash :: "char \<Rightarrow> bool" where
  \<comment> \<open>the class \<open>[^#]\<close>\<close>
  "not_hash c = (c \<noteq> CHR ''#'')"

definition SIDE_RE :: regex where
  \<comment> \<open>\<open>\b(buy|long|sell|short)\b\<close>, with \<open>re.I\<close>\<close>
  "SIDE_RE = seqs [WordB,
     Group 1 (Alt (str ''buy'') (Alt (str ''long'') (Alt (str ''sell'') (str ''short'')))),
     WordB]"

definition PRICE_RANGE_RE :: regex where
  \<comment> \<open>\<open>@?\s*([\d.,]+)\s*(?:-|to|/)\s*([\d.,]+)\<close>\<close>
  "PRICE_RANGE_RE = seqs [Opt (Lit CHR ''@''), Rep 0 None is_space,
     Group 1 (Rep 1 None is_num_chr), Rep 0 None is_space,
     Alt (Lit CHR ''-'') (Alt (str ''to'') (Lit CHR ''/'')),
     Rep 0 None is_space, Group 2 (Rep 1 None is_num_chr)]"

definition SINGLE_RE :: regex where
  \<comment> \<open>\<open>@?\s*([\d.,]+)\<close>\<close>
  "SINGLE_RE = seqs [Opt (Lit CHR ''@''), Rep 0 None is_space, Group 1 (Rep 1 None is_num_chr)]"

definition SL_RE :: regex where
  \<comment> \<open>\<open>(?:sl|stoploss|stop loss)[:=\s]*([\d.,]+)\<close>, with \<open>re.I\<close>\<close>
  "SL_RE = seqs [Alt (str ''sl'') (Alt (str ''stoploss'') (str ''stop loss'')),
     Rep 0 None is_sep_chr, Group 1 (Rep 1 None is_num_chr)]"

definition TP_RE :: regex where
  \<comment> \<open>\<open>(tp\d*|target)[:=\s]*([\d.,]+)\<close>, with \<open>re.I\<close>\<close>
  "TP_RE = seqs [Group 1 (Alt (Seq (str ''tp'') (Rep 0 None is_digit)) (str ''target'')),
     Rep 0 None is_sep_chr, Group 2 (Rep 1 None is_num_chr)]"

definition TOKEN_SWEEP_RE :: regex where
  \<comment> \<open>\<open>#?([A-Za-z]{3,6})([A-Za-z]{3,6})?\<close>\<close>
  "TOKEN_SWEEP_RE = seqs [Opt (Lit CHR ''#''), Group 1 (Rep 3 (Some 6) is_alpha),
     Opt (Group 2 (Rep 3 (Some 6) is_alpha))]"

definition window_re :: "string \<Rightarrow> regex" where
  \<comment> \<open>\<open>({token})[^A-Za-z0-9]*([^#]+)\<close>, with \<open>re.I\<close>. Every token the program puts here
      is a key of the instrument map: lower-case letters and digits, which stand for
      themselves in a pattern.\<close>
  "window_re token = seqs [Group 1 (str token), Rep 0 None not_alnum,
     Group 2 (Rep 1 None not_hash)]"

subsection \<open>Signals and utilities\<close>

record TradeSignal =
  side :: string
  instrument :: string
  entry_min :: "pyfloat option"
  entry_max :: "pyfloat option"
  entry :: "pyfloat option"
  sl :: "pyfloat option"
  tps :: "pyfloat list"

definition parse_number :: "string \<Rightarrow> error + pyfloat" where
  "parse_number s = py_float (strip (replace_chr CHR '','' [] s))"

definition normalize_instrument :: "string \<Rightarrow> string option" where
  "normalize_instrument token =
     (let t = replace_chr CHR ''_'' [] (replace_chr CHR ''-'' [] (replace_chr CHR '' '' [] (lower token)))
      in map_of INSTRUMENT_MAP t)"

definition grp :: "rmatch \<Rightarrow> nat \<Rightarrow> string" where
  \<comment> \<open>\<open>m.group(n)\<close> of a group that every match of the pattern fills; \<open>m.group(n) or ""\<close>
      of an optional one\<close>
  "grp m n = (case group m n of None \<Rightarrow> [] | Some g \<Rightarrow> g)"

subsection \<open>The multi-signal parser\<close>

definition key_candidates :: "string \<Rightarrow> (string \<times> string) list" where
  \<comment> \<open>the first loop: every key of the map that occurs in the lower-cased text\<close>
  "key_candidates txt_low = filter (\<lambda>(key, inst). contains key txt_low) INSTRUMENT_MAP"

definition sweep_step :: "(string \<times> string) list \<Rightarrow> rmatch \<Rightarrow> (string \<times> string) list" where
  "sweep_step cands m =
     (let token = lower (grp m 1 @ grp m 2) in
      case normalize_instrument token of
        None \<Rightarrow> cands
      | Some inst \<Rightarrow>
          if inst \<noteq> [] \<and> (token, inst) \<notin> set cands then cands @ [(token, inst)] else cands)"

definition instrument_candidates :: "string \<Rightarrow> string \<Rightarrow> (string \<times> string) list" where
  "instrument_candidates text txt_low =
     foldl sweep_step (key_candidates txt_low) (finditer False TOKEN_SWEEP_RE text)"

definition bind :: "error + 'a \<Rightarrow> ('a \<Rightarrow> error + 'b) \<Rightarrow> error + 'b" where
  \<comment> \<open>an exception raised by the first part leaves the second undone\<close>
  "bind x f = (case x of Inl e \<Rightarrow> Inl e | Inr v \<Rightarrow> f v)"

definition parse_entry :: "string \<Rightarrow> error + (pyfloat option \<times> pyfloat option)" where
  "parse_entry chunk =
     (case search False PRICE_RANGE_RE chunk of
        Some m_range \<Rightarrow>
          bind (parse_number (grp m_range 1)) (\<lambda>lo.
          bind (parse_number (grp m_range 2)) (\<lambda>hi. Inr (Some lo, Some hi)))
      | None \<Rightarrow>
          (case search False SINGLE_RE chunk of
             Some m_single \<Rightarrow> bind (parse_number (grp m_single 1)) (\<lambda>v. Inr (Some v, Some v))
           | None \<Rightarrow> Inr (None, None)))"

definition parse_sl :: "string \<Rightarrow> error + pyfloat option" where
  "parse_sl chunk =
     (case search True SL_RE chunk of
        Some m_sl \<Rightarrow> bind (parse_number (grp m_sl 1)) (\<lambda>v. Inr (Some v))
      | None \<Rightarrow> Inr None)"

definition tp_step :: "pyfloat list \<Rightarrow> rmatch \<Rightarrow> pyfloat list" where
  \<comment> \<open>the body of a take-profit loop: \<open>try: tps.append(...) except: pass\<close>\<close>
  "tp_step acc m = (case parse_number (grp m 2) of Inl e \<Rightarrow> acc | Inr v \<Rightarrow> acc @ [v])"

definition scan_tps :: "pyfloat list \<Rightarrow> string \<Rightarrow> pyfloat list" where
  "scan_tps acc s = foldl tp_step acc (finditer True TP_RE s)"

definition collect_tps :: "string \<Rightarrow> string \<Rightarrow> pyfloat list" where
  "collect_tps txt chunk =
     (let found = scan_tps [] chunk in if found = [] then scan_tps found txt else found)"

definition extract_signal :: "string \<Rightarrow> string \<Rightarrow> string \<Rightarrow> error + TradeSignal option" where
  \<comment> \<open>the loop body once the window \<open>chunk\<close> is cut; \<open>None\<close> is \<open>continue\<close>\<close>
  "extract_signal txt inst chunk =
     (case search True SIDE_RE chunk of
        None \<Rightarrow> Inr None
      | Some m_side \<Rightarrow>
          (let side_raw = lower (grp m_side 1);
               sd = (if side_raw = ''buy'' \<or> side_raw = ''long'' then ''buy'' else ''sell'')
           in bind (parse_entry chunk) (\<lambda>(lo, hi).
              bind (parse_sl chunk) (\<lambda>stop.
                Inr (Some \<lparr>side = sd, instrument = inst, entry_min = lo, entry_max = hi,
                           entry = None, sl = stop, tps = collect_tps txt chunk\<rparr>)))))"

definition window :: "string \<Rightarrow> string \<Rightarrow> string option" where
  \<comment> \<open>\<open>match.group(0)\<close> of the window pattern in the flattened text\<close>
  "window txt token = map_option m_text (search True (window_re token) txt)"

definition process_candidate :: "string \<Rightarrow> string \<times> string \<Rightarrow> error + TradeSignal option" where
  "process_candidate txt cand =
     (case cand of (token, inst) \<Rightarrow>
        (case window txt token of None \<Rightarrow> Inr None | Some chunk \<Rightarrow> extract_signal txt inst chunk))"

fun signal_loop :: "string \<Rightarrow> (string \<times> string) list \<Rightarrow> TradeSignal list \<Rightarrow> error + TradeSignal list" where
  "signal_loop txt [] signals = Inr signals"
| "signal_loop txt (cand # rest) signals =
     (case process_candidate txt cand of
        Inl e \<Rightarrow> Inl e
      | Inr None \<Rightarrow> signal_loop txt rest signals
      | Inr (Some sig) \<Rightarrow> signal_loop txt rest (signals @ [sig]))"

definition flatten :: "string \<Rightarrow> string" where
  \<comment> \<open>\<open>text.replace("\n", " ").strip()\<close>\<close>
  "flatten text = strip (replace_chr (CHR 0x0A) '' '' text)"

definition parse_signals :: "string \<Rightarrow> error + TradeSignal list" where
  "parse_signals text =
     (let txt = flatten text; txt_low = lower txt
      in signal_loop txt (instrument_candidates text txt_low) [])"

subsection \<open>Risk sizing\<close>

definition calc_units :: "pyfloat \<Rightarrow> TradeSignal \<Rightarrow> error + int" where
  "calc_units balance signal =
     (if falsy (sl signal) \<or> falsy (entry_min signal) then Inr DEFAULT_UNITS
      else (let risk_amount = fmul balance RISK_PER_TRADE;
                entry_price = the (entry_min signal);
                stop_loss = the (sl signal);
                pip_risk = fabs (fsub entry_price stop_loss)
            in if pip_risk = Fin 0 then Inr DEFAULT_UNITS
               else bind (fdiv risk_amount pip_risk) (\<lambda>units.
                      py_int (if side signal = ''buy'' then units else fneg units))))"

section \<open>Notions of the specification\<close>

definition trunc_rat :: "rat \<Rightarrow> int" where
  \<comment> \<open>rounding toward zero\<close>
  "trunc_rat q = (if 0 \<le> q then \<lfloor>q\<rfloor> else - \<lfloor>- q\<rfloor>)"

definition claimed_units :: "pyfloat \<Rightarrow> string \<Rightarrow> pyfloat \<Rightarrow> pyfloat \<Rightarrow> error + int" where
  \<comment> \<open>the sizing rule in the words of the specification, for an entry \<open>e\<close> and a stop \<open>s\<close>
      that are both set: the magnitude is the quotient rounded toward zero, the sign is
      the side's\<close>
  "claimed_units balance sd e s =
     bind (fdiv (fmul balance RISK_PER_TRADE) (fabs (fsub e s))) (\<lambda>q.
     bind (py_int (fabs q)) (\<lambda>m. Inr (if sd = ''buy'' then m else - m)))"

definition is_separator :: "char \<Rightarrow> bool" where
  \<comment> \<open>the separators a token may carry: space, hyphen, underscore\<close>
  "is_separator c = (c = CHR '' '' \<or> c = CHR ''-'' \<or> c = CHR ''_'')"

inductive variant :: "string \<Rightarrow> string \<Rightarrow> bool" where
  \<comment> \<open>\<open>t'\<close> is \<open>t\<close> up to the case of its letters and to separators put in or left out\<close>
  casing: "lower t = lower t' \<Longrightarrow> variant t t'"
| insert_sep: "is_separator c \<Longrightarrow> variant (xs @ ys) (xs @ c # ys)"
| delete_sep: "is_separator c \<Longrightarrow> variant (xs @ c # ys) (xs @ ys)"
| chain: "variant t u \<Longrightarrow> variant u v \<Longrightarrow> variant t v"

definition tp_levels :: "string \<Rightarrow> pyfloat list" where
  \<comment> \<open>the take-profit levels of a text: the matches of the pattern from left to right,
      without those whose numeral does not convert\<close>
  "tp_levels s = List.map_filter
     (\<lambda>m. case parse_number (grp m 2) of Inl e \<Rightarrow> None | Inr v \<Rightarrow> Some v)
     (finditer True TP_RE s)"

(*THEOREMS*)

section \<open>Floating-point facts\<close>

lemma pow2_pos: "0 < pow2 e"
  by (simp add: pow2_def)

lemma round_half_even_nonneg: "0 \<le> y \<Longrightarrow> 0 \<le> round_half_even y"
  by (simp add: round_half_even_def Let_def)

lemma fl_nonneg: "0 \<le> x \<Longrightarrow> fl x = Fin y \<Longrightarrow> 0 \<le> y"
  by (auto simp: fl_def Let_def pow2_pos round_half_even_nonneg less_imp_le split: if_splits)

lemma fl_zero: "fl 0 = Fin 0"
  by (simp add: fl_def)

lemma risk_per_trade_value:
  "RISK_PER_TRADE = Fin (5764607523034235 / 576460752303423488)"
  by code_simp

section \<open>Risk sizing\<close>

text \<open>
  C3. For every balance and every signal that is degenerate for sizing (no stop, no entry,
  or a stop distance of zero), \<open>calc_units\<close> returns the default unit count, which is 100,
  with no sign of the side, and raises nothing.
\<close>

theorem calc_units_degenerate_default:
  assumes "sl sig = None \<or> entry_min sig = None \<or>
           (\<exists>e s. entry_min sig = Some e \<and> sl sig = Some s \<and> fabs (fsub e s) = Fin 0)"
  shows "calc_units balance sig = Inr DEFAULT_UNITS \<and> DEFAULT_UNITS = 100"
  using assms by (auto simp: calc_units_def falsy_def Let_def DEFAULT_UNITS_def)

theorem calc_units_degenerate_default_witness:
  "fabs (fsub (Fin 1950) (Fin 1950)) = Fin 0 \<and>
   calc_units (Fin 10000)
     \<lparr>side = ''sell'', instrument = ''XAU_USD'', entry_min = Some (Fin 1950),
      entry_max = Some (Fin 1950), entry = None, sl = Some (Fin 1950), tps = []\<rparr> = Inr 100"
proof -
  have z: "fabs (fsub (Fin 1950) (Fin 1950)) = Fin 0"
    by (simp add: fsub_def fl_zero)
  show ?thesis
    using z calc_units_degenerate_default
      [of "\<lparr>side = ''sell'', instrument = ''XAU_USD'', entry_min = Some (Fin 1950),
            entry_max = Some (Fin 1950), entry = None, sl = Some (Fin 1950), tps = []\<rparr>"
          "Fin 10000"]
    by simp
qed

text \<open>
  C9. For every balance and side, \<open>calc_units\<close> returns the positive default unit count
  when the stop or the lower entry bound is the number zero: a zero price counts as an
  absent one, and neither the risk formula nor the sign of the side is applied.
\<close>

theorem calc_units_zero_price_default:
  assumes "sl sig = Some (Fin 0) \<or> entry_min sig = Some (Fin 0)"
  shows "calc_units balance sig = Inr DEFAULT_UNITS \<and> 0 < DEFAULT_UNITS"
  using assms by (auto simp: calc_units_def falsy_def DEFAULT_UNITS_def)

theorem calc_units_zero_price_default_witness:
  "calc_units (Fin 20000)
     \<lparr>side = ''sell'', instrument = ''EUR_USD'', entry_min = Some (Fin 1),
      entry_max = Some (Fin 1), entry = None, sl = Some (Fin 0), tps = []\<rparr> = Inr 100"
  using calc_units_zero_price_default
      [of "\<lparr>side = ''sell'', instrument = ''EUR_USD'', entry_min = Some (Fin 1),
            entry_max = Some (Fin 1), entry = None, sl = Some (Fin 0), tps = []\<rparr>"
          "Fin 20000"]
  by (simp add: DEFAULT_UNITS_def)

text \<open>
  C2, as stated: whenever stop and entry are both set and differ, the result has the
  magnitude of balance times risk fraction over the stop distance, rounded toward zero,
  and the sign of the side. It fails for a stop of zero: with a balance of 20000, a sell
  signal with entry 1 and stop 0 is sized at the default +100, not at -200.
\<close>

theorem calc_units_formula_counterexample:
  "entry_min \<lparr>side = ''sell'', instrument = ''EUR_USD'', entry_min = Some (Fin 1),
      entry_max = Some (Fin 1), entry = None, sl = Some (Fin 0), tps = []\<rparr>
     \<noteq> sl \<lparr>side = ''sell'', instrument = ''EUR_USD'', entry_min = Some (Fin 1),
      entry_max = Some (Fin 1), entry = None, sl = Some (Fin 0), tps = []\<rparr> \<and>
   calc_units (Fin 20000)
     \<lparr>side = ''sell'', instrument = ''EUR_USD'', entry_min = Some (Fin 1),
      entry_max = Some (Fin 1), entry = None, sl = Some (Fin 0), tps = []\<rparr> = Inr 100 \<and>
   claimed_units (Fin 20000) ''sell'' (Fin 1) (Fin 0) = Inr (- 200)"
  by code_simp

text \<open>
  C2, amended. For every balance and every signal whose stop and entry are both set, both
  different from zero, and at a stop distance different from zero: when the quotient of
  balance times risk fraction by the stop distance, computed in floating point, is a
  finite number \<open>q\<close>, \<open>calc_units\<close> returns \<open>q\<close> rounded toward zero for the side
  \<open>buy\<close> and its negation for any other side; and \<open>q\<close> is not negative when the
  balance is not.
\<close>

theorem calc_units_risk_formula:
  assumes "entry_min sig = Some e" and "sl sig = Some s"
    and "e \<noteq> Fin 0" and "s \<noteq> Fin 0"
    and "fabs (fsub e s) \<noteq> Fin 0"
    and "fdiv (fmul balance RISK_PER_TRADE) (fabs (fsub e s)) = Inr (Fin q)"
  shows "calc_units balance sig =
           Inr (if side sig = ''buy'' then trunc_rat q else - trunc_rat q) \<and>
         (\<forall>b. balance = Fin b \<and> 0 \<le> b \<longrightarrow> 0 \<le> q)"
proof
  show "calc_units balance sig =
          Inr (if side sig = ''buy'' then trunc_rat q else - trunc_rat q)"
    using assms by (auto simp: calc_units_def falsy_def Let_def bind_def trunc_rat_def)
next
  show "\<forall>b. balance = Fin b \<and> 0 \<le> b \<longrightarrow> 0 \<le> q"
  proof (intro allI impI)
    fix b assume b: "balance = Fin b \<and> 0 \<le> b"
    define risk where "risk = fmul balance RISK_PER_TRADE"
    define pip where "pip = fabs (fsub e s)"
    have q: "fdiv risk pip = Inr (Fin q)"
      using assms(6) by (simp add: risk_def pip_def)
    have risk: "risk = fl (b * (5764607523034235 / 576460752303423488))"
      using b by (simp add: risk_def risk_per_trade_value)
    have pip_cases: "pip = PInf \<or> pip = NaN \<or> (\<exists>p. pip = Fin p \<and> 0 < p)"
    proof (cases "fsub e s")
      case (Fin d)
      then show ?thesis using assms(5) by (auto simp: pip_def)
    qed (simp_all add: pip_def)
    have risk_cases: "risk = PInf \<or> risk = NInf \<or> risk = NaN \<or> (\<exists>y. risk = Fin y \<and> 0 \<le> y)"
    proof (cases risk)
      case (Fin y)
      have "0 \<le> b * (5764607523034235 / 576460752303423488)" using b by simp
      then have "0 \<le> y" using Fin risk fl_nonneg by metis
      then show ?thesis using Fin by simp
    qed simp_all
    from pip_cases show "0 \<le> q"
    proof (elim disjE exE conjE)
      assume "pip = PInf"
      then show ?thesis using q risk_cases by (auto split: if_splits)
    next
      assume "pip = NaN"
      then show ?thesis using q risk_cases by (auto split: if_splits)
    next
      fix p assume p: "pip = Fin p" "0 < p"
      from risk_cases show ?thesis
      proof (elim disjE exE conjE)
        fix y assume y: "risk = Fin y" "0 \<le> y"
        then have "fl (y / p) = Fin q" using q p by simp
        moreover have "0 \<le> y / p" using y p by simp
        ultimately show ?thesis using fl_nonneg by blast
      qed (use q p in \<open>auto simp: inf_of_sign_def split: if_splits\<close>)
    qed
  qed
qed

theorem calc_units_risk_formula_witness:
  "fabs (fsub (Fin 1950) (Fin 1960)) \<noteq> Fin 0 \<and>
   fdiv (fmul (Fin 10000) RISK_PER_TRADE) (fabs (fsub (Fin 1950) (Fin 1960))) = Inr (Fin 10) \<and>
   calc_units (Fin 10000)
     \<lparr>side = ''sell'', instrument = ''XAU_USD'', entry_min = Some (Fin 1950),
      entry_max = Some (Fin 1950), entry = None, sl = Some (Fin 1960), tps = []\<rparr> = Inr (- 10)"
proof -
  have d: "fabs (fsub (Fin 1950) (Fin 1960)) \<noteq> Fin 0"
    by code_simp
  have q: "fdiv (fmul (Fin 10000) RISK_PER_TRADE) (fabs (fsub (Fin 1950) (Fin 1960))) = Inr (Fin 10)"
    by code_simp
  have t: "trunc_rat 10 = 10"
    by (simp add: trunc_rat_def)
  show ?thesis
    using d q t calc_units_risk_formula
      [of "\<lparr>side = ''sell'', instrument = ''XAU_USD'', entry_min = Some (Fin 1950),
            entry_max = Some (Fin 1950), entry = None, sl = Some (Fin 1960), tps = []\<rparr>"
          "Fin 1950" "Fin 1960" "Fin 10000" 10]
    by simp
qed

section \<open>Instrument tokens\<close>

lemma replace_chr_delete: "replace_chr c [] s = filter (\<lambda>x. x \<noteq> c) s"
  by (induction s) (simp_all add: replace_chr_def)

lemma lower_chr_separator: "is_separator c \<Longrightarrow> lower_chr c = c"
  by (auto simp: is_separator_def lower_chr_def)

lemma normalize_instrument_alt:
  "normalize_instrument t = map_of INSTRUMENT_MAP (filter (\<lambda>x. \<not> is_separator x) (lower t))"
proof -
  have "filter (\<lambda>x. x \<noteq> CHR ''_'') (filter (\<lambda>x. x \<noteq> CHR ''-'') (filter (\<lambda>x. x \<noteq> CHR '' '') s))
        = filter (\<lambda>x. \<not> is_separator x) s" for s
    by (induction s) (auto simp: is_separator_def)
  then show ?thesis
    by (simp add: normalize_instrument_def replace_chr_delete Let_def)
qed

lemma variant_same_key:
  "variant t t' \<Longrightarrow>
   filter (\<lambda>x. \<not> is_separator x) (lower t') = filter (\<lambda>x. \<not> is_separator x) (lower t)"
  by (induction rule: variant.induct) (simp_all add: lower_def lower_chr_separator)

text \<open>
  C7. A token and each of its variants, which differ from it in the case of letters or in
  spaces, hyphens and underscores only, normalize to the same result; so a token whose
  normalization is a key of the alias table gives the same canonical symbol in every
  variant. A token whose normalization is no key gives \<open>None\<close>, and no call raises.
\<close>

theorem normalize_instrument_variants:
  "(variant t t' \<longrightarrow> normalize_instrument t' = normalize_instrument t) \<and>
   (normalize_instrument t = None \<longleftrightarrow>
      filter (\<lambda>x. \<not> is_separator x) (lower t) \<notin> fst ` set INSTRUMENT_MAP) \<and>
   normalize_instrument ''GBP USD'' = Some ''GBP_USD'' \<and>
   normalize_instrument ''gbp-usd'' = Some ''GBP_USD'' \<and>
   normalize_instrument ''GbpUsd'' = Some ''GBP_USD''"
proof (intro conjI)
  show "variant t t' \<longrightarrow> normalize_instrument t' = normalize_instrument t"
    by (simp add: normalize_instrument_alt variant_same_key)
  show "normalize_instrument t = None \<longleftrightarrow>
      filter (\<lambda>x. \<not> is_separator x) (lower t) \<notin> fst ` set INSTRUMENT_MAP"
    by (simp only: normalize_instrument_alt map_of_eq_None_iff)
  show "normalize_instrument ''GBP USD'' = Some ''GBP_USD''" by code_simp
  show "normalize_instrument ''gbp-usd'' = Some ''GBP_USD''" by code_simp
  show "normalize_instrument ''GbpUsd'' = Some ''GBP_USD''" by code_simp
qed

theorem normalize_instrument_variants_witness:
  "variant ''gbpusd'' ''Gbp_USD'' \<and> normalize_instrument ''Gbp_USD'' = Some ''GBP_USD''"
proof -
  have 1: "variant ''gbpusd'' ''GbpUSD''"
    by (rule variant.casing) code_simp
  have 2: "variant (''Gbp'' @ ''USD'') (''Gbp'' @ CHR ''_'' # ''USD'')"
    by (rule variant.insert_sep) (simp add: is_separator_def)
  have v: "variant ''gbpusd'' ''Gbp_USD''"
    using variant.chain [OF 1] 2 by simp
  have k: "normalize_instrument ''gbpusd'' = Some ''GBP_USD''" by code_simp
  have "variant ''gbpusd'' ''Gbp_USD'' \<longrightarrow>
        normalize_instrument ''Gbp_USD'' = normalize_instrument ''gbpusd''"
    using normalize_instrument_variants [of "''gbpusd''" "''Gbp_USD''"] by (rule conjunct1)
  then show ?thesis
    using v k by simp
qed



section \<open>Extraction of one window\<close>

lemma extract_signal_Some:
  assumes "extract_signal txt inst chunk = Inr (Some sg)"
  shows "\<exists>m lo hi st. search True SIDE_RE chunk = Some m \<and>
           parse_entry chunk = Inr (lo, hi) \<and> parse_sl chunk = Inr st \<and>
           sg = \<lparr>side = (if lower (grp m 1) = ''buy'' \<or> lower (grp m 1) = ''long''
                          then ''buy'' else ''sell''),
                  instrument = inst, entry_min = lo, entry_max = hi, entry = None,
                  sl = st, tps = collect_tps txt chunk\<rparr>"
proof (cases "search True SIDE_RE chunk")
  case None
  then show ?thesis using assms by (simp add: extract_signal_def)
next
  case (Some m)
  show ?thesis
  proof (cases "parse_entry chunk")
    case (Inl e)
    then show ?thesis using assms Some by (simp add: extract_signal_def bind_def Let_def)
  next
    case en: (Inr en)
    obtain lo hi where p: "en = (lo, hi)" by (cases en)
    show ?thesis
    proof (cases "parse_sl chunk")
      case (Inl e)
      then show ?thesis using assms Some en p by (simp add: extract_signal_def bind_def Let_def)
    next
      case (Inr st)
      then have "sg = \<lparr>side = (if lower (grp m 1) = ''buy'' \<or> lower (grp m 1) = ''long''
                          then ''buy'' else ''sell''),
                  instrument = inst, entry_min = lo, entry_max = hi, entry = None,
                  sl = st, tps = collect_tps txt chunk\<rparr>"
        using assms Some en p by (simp add: extract_signal_def bind_def Let_def)
      then show ?thesis using Some en p Inr by blast
    qed
  qed
qed

lemma extract_signal_entry:
  assumes "extract_signal txt inst chunk = Inr (Some sg)"
  shows "parse_entry chunk = Inr (entry_min sg, entry_max sg)"
  using extract_signal_Some [OF assms] by auto


lemma signal_loop_invariant:
  assumes step: "\<And>cand sg. process_candidate txt cand = Inr (Some sg) \<Longrightarrow> P sg"
  shows "signal_loop txt cands acc = Inr sigs \<Longrightarrow> \<forall>sg\<in>set acc. P sg \<Longrightarrow> \<forall>sg\<in>set sigs. P sg"
proof (induction cands arbitrary: acc)
  case Nil
  then show ?case by simp
next
  case (Cons cand rest)
  show ?case
  proof (cases "process_candidate txt cand")
    case (Inl e)
    then show ?thesis using Cons.prems(1) by simp
  next
    case (Inr r)
    show ?thesis
    proof (cases r)
      case None
      then have "signal_loop txt rest acc = Inr sigs" using Cons.prems(1) Inr by simp
      then show ?thesis using Cons.IH Cons.prems(2) by blast
    next
      case (Some sg)
      then have l: "signal_loop txt rest (acc @ [sg]) = Inr sigs" using Cons.prems(1) Inr by simp
      have "P sg" using step Inr Some by blast
      then have "\<forall>x\<in>set (acc @ [sg]). P x" using Cons.prems(2) by simp
      then show ?thesis using Cons.IH l by blast
    qed
  qed
qed


lemma parse_entry_shape:
  assumes "parse_entry chunk = Inr (lo, hi)"
  shows "case search False PRICE_RANGE_RE chunk of
        Some m \<Rightarrow> (\<exists>a b. parse_number (grp m 1) = Inr a \<and> parse_number (grp m 2) = Inr b \<and>
                     lo = Some a \<and> hi = Some b)
      | None \<Rightarrow>
          (case search False SINGLE_RE chunk of
             Some m \<Rightarrow> (\<exists>a. parse_number (grp m 1) = Inr a \<and> lo = Some a \<and> hi = Some a)
           | None \<Rightarrow> lo = None \<and> hi = None)"
proof (cases "search False PRICE_RANGE_RE chunk")
  case None
  show ?thesis
  proof (cases "search False SINGLE_RE chunk")
    case n: None
    then show ?thesis using assms None by (simp add: parse_entry_def)
  next
    case (Some m)
    then show ?thesis using assms None
      by (cases "parse_number (grp m 1)") (auto simp: parse_entry_def bind_def)
  qed
next
  case (Some m)
  then show ?thesis using assms
    by (cases "parse_number (grp m 1)"; cases "parse_number (grp m 2)")
       (auto simp: parse_entry_def bind_def)
qed

lemma parse_entry_both:
  assumes "parse_entry chunk = Inr (lo, hi)"
  shows "lo = None \<longleftrightarrow> hi = None"
  using parse_entry_shape [OF assms] by (auto split: option.splits)


lemma foldl_tp_step:
  "foldl tp_step acc mts = acc @ List.map_filter
     (\<lambda>m. case parse_number (grp m 2) of Inl e \<Rightarrow> None | Inr v \<Rightarrow> Some v) mts"
  by (induction mts arbitrary: acc) (auto simp: tp_step_def List.map_filter_simps split: sum.splits)

lemma collect_tps_levels:
  "collect_tps txt chunk = (if tp_levels chunk = [] then tp_levels txt else tp_levels chunk)"
  by (simp add: collect_tps_def scan_tps_def foldl_tp_step tp_levels_def Let_def)

text \<open>
  C6. Once the side, the entry and the stop of a window are read, the signal is produced
  whatever the take-profit numerals are, and its take-profit levels are those of the
  window, in their order in the text and without the ones that do not convert; when the
  window gives none, they are those of the whole flattened message, read the same way.
\<close>

theorem take_profits_collected:
  assumes "search True SIDE_RE chunk \<noteq> None"
    and "parse_entry chunk = Inr en" and "parse_sl chunk = Inr st"
  shows "\<exists>sg. extract_signal txt inst chunk = Inr (Some sg) \<and>
           tps sg = (if tp_levels chunk = [] then tp_levels txt else tp_levels chunk)"
  using assms
  by (cases en) (auto simp: extract_signal_def bind_def Let_def collect_tps_levels)

theorem take_profits_collected_witness:
  "search True SIDE_RE ''gold buy 1950'' \<noteq> None \<and>
   parse_entry ''gold buy 1950'' = Inr (Some (Fin 1950), Some (Fin 1950)) \<and>
   parse_sl ''gold buy 1950'' = Inr None \<and>
   (\<exists>sg. extract_signal ''target 1.2.3 tp 1970 #gold buy 1950'' ''XAU_USD'' ''gold buy 1950''
            = Inr (Some sg) \<and> tps sg = [Fin 1970])"
proof -
  have s: "search True SIDE_RE ''gold buy 1950'' \<noteq> None"
    by code_simp
  have e: "parse_entry ''gold buy 1950'' = Inr (Some (Fin 1950), Some (Fin 1950))"
    by code_simp
  have p: "parse_sl ''gold buy 1950'' = Inr None"
    by code_simp
  have c: "tp_levels ''gold buy 1950'' = []"
    by code_simp
  have t: "tp_levels ''target 1.2.3 tp 1970 #gold buy 1950'' = [Fin 1970]"
    by code_simp
  show ?thesis
    using take_profits_collected [OF s e p, of "''target 1.2.3 tp 1970 #gold buy 1950''" "''XAU_USD''"]
      s e p c t
    by simp
qed

text \<open>
  C5. Every signal that \<open>parse_signals\<close> returns has both entry bounds set or both
  absent. It comes from a window of the flattened message: when the range pattern matches
  there, the lower bound is its first number and the upper bound its second, in the order
  of the text; when only the single-number pattern matches, both bounds are that number.
  Nothing orders the two, and the descending range 1960-1955 gives 1960 and 1955.
\<close>

theorem entry_bounds_paired:
  "(parse_signals text = Inr sigs \<and> sg \<in> set sigs \<longrightarrow>
      (entry_min sg = None \<longleftrightarrow> entry_max sg = None) \<and>
      (\<exists>token chunk. window (flatten text) token = Some chunk \<and>
         (case search False PRICE_RANGE_RE chunk of
            Some m \<Rightarrow> (\<exists>a b. parse_number (grp m 1) = Inr a \<and> parse_number (grp m 2) = Inr b \<and>
                        entry_min sg = Some a \<and> entry_max sg = Some b)
          | None \<Rightarrow>
             (case search False SINGLE_RE chunk of
                Some m \<Rightarrow> (\<exists>a. parse_number (grp m 1) = Inr a \<and>
                            entry_min sg = Some a \<and> entry_max sg = Some a)
              | None \<Rightarrow> entry_min sg = None \<and> entry_max sg = None)))) \<and>
   parse_signals ''gold sell 1960-1955'' =
     Inr [\<lparr>side = ''sell'', instrument = ''XAU_USD'', entry_min = Some (Fin 1960),
           entry_max = Some (Fin 1955), entry = None, sl = None, tps = []\<rparr>]"
proof (intro conjI impI)
  show "parse_signals ''gold sell 1960-1955'' =
     Inr [\<lparr>side = ''sell'', instrument = ''XAU_USD'', entry_min = Some (Fin 1960),
           entry_max = Some (Fin 1955), entry = None, sl = None, tps = []\<rparr>]"
    by code_simp
next
  assume a: "parse_signals text = Inr sigs \<and> sg \<in> set sigs"
  define P where "P = (\<lambda>sg :: TradeSignal. \<exists>token chunk. window (flatten text) token = Some chunk \<and>
     parse_entry chunk = Inr (entry_min sg, entry_max sg))"
  have step: "P x" if "process_candidate (flatten text) cand = Inr (Some x)" for cand x
  proof -
    obtain token inst where c: "cand = (token, inst)" by (cases cand)
    show ?thesis
    proof (cases "window (flatten text) token")
      case None
      then show ?thesis using that c by (simp add: process_candidate_def)
    next
      case (Some chunk)
      then have "extract_signal (flatten text) inst chunk = Inr (Some x)"
        using that c by (simp add: process_candidate_def)
      then have "parse_entry chunk = Inr (entry_min x, entry_max x)"
        by (rule extract_signal_entry)
      then show ?thesis using Some unfolding P_def by blast
    qed
  qed
  have loop: "signal_loop (flatten text) (instrument_candidates text (lower (flatten text))) []
                = Inr sigs"
    using a by (simp add: parse_signals_def Let_def)
  have "\<forall>x\<in>set sigs. P x"
    by (rule signal_loop_invariant [of "flatten text" P, OF step loop]) simp_all
  then have "P sg" using a by blast
  then obtain token chunk where w: "window (flatten text) token = Some chunk"
    and e: "parse_entry chunk = Inr (entry_min sg, entry_max sg)"
    unfolding P_def by blast
  show "entry_min sg = None \<longleftrightarrow> entry_max sg = None"
    using e by (rule parse_entry_both)
  show "\<exists>token chunk. window (flatten text) token = Some chunk \<and>
         (case search False PRICE_RANGE_RE chunk of
            Some m \<Rightarrow> (\<exists>a b. parse_number (grp m 1) = Inr a \<and> parse_number (grp m 2) = Inr b \<and>
                        entry_min sg = Some a \<and> entry_max sg = Some b)
          | None \<Rightarrow>
             (case search False SINGLE_RE chunk of
                Some m \<Rightarrow> (\<exists>a. parse_number (grp m 1) = Inr a \<and>
                            entry_min sg = Some a \<and> entry_max sg = Some a)
              | None \<Rightarrow> entry_min sg = None \<and> entry_max sg = None))"
    using w parse_entry_shape [OF e] by blast
qed

theorem entry_bounds_paired_witness:
  "parse_signals ''nas100 buy'' =
     Inr [\<lparr>side = ''buy'', instrument = ''NAS100_USD'', entry_min = Some (Fin 100),
           entry_max = Some (Fin 100), entry = None, sl = None, tps = []\<rparr>] \<and>
   (entry_min \<lparr>side = ''buy'', instrument = ''NAS100_USD'', entry_min = Some (Fin 100),
           entry_max = Some (Fin 100), entry = None, sl = None, tps = []\<rparr> = None \<longleftrightarrow>
    entry_max \<lparr>side = ''buy'', instrument = ''NAS100_USD'', entry_min = Some (Fin 100),
           entry_max = Some (Fin 100), entry = None, sl = None, tps = []\<rparr> = None)"
proof -
  let ?S = "\<lparr>side = ''buy'', instrument = ''NAS100_USD'', entry_min = Some (Fin 100),
           entry_max = Some (Fin 100), entry = None, sl = None, tps = []\<rparr>"
  have p: "parse_signals ''nas100 buy'' = Inr [?S]"
    by code_simp
  have prem: "parse_signals ''nas100 buy'' = Inr [?S] \<and> ?S \<in> set [?S]"
    using p by simp
  have "(entry_min ?S = None \<longleftrightarrow> entry_max ?S = None) \<and>
      (\<exists>token chunk. window (flatten ''nas100 buy'') token = Some chunk \<and>
         (case search False PRICE_RANGE_RE chunk of
            Some m \<Rightarrow> (\<exists>a b. parse_number (grp m 1) = Inr a \<and> parse_number (grp m 2) = Inr b \<and>
                        entry_min ?S = Some a \<and> entry_max ?S = Some b)
          | None \<Rightarrow>
             (case search False SINGLE_RE chunk of
                Some m \<Rightarrow> (\<exists>a. parse_number (grp m 1) = Inr a \<and>
                            entry_min ?S = Some a \<and> entry_max ?S = Some a)
              | None \<Rightarrow> entry_min ?S = None \<and> entry_max ?S = None)))"
    using entry_bounds_paired [of "''nas100 buy''" "[?S]" ?S, THEN conjunct1] prem
    by (rule mp)
  then have "entry_min ?S = None \<longleftrightarrow> entry_max ?S = None"
    by (rule conjunct1)
  then show ?thesis using p by blast
qed

section \<open>Whole messages\<close>

text \<open>
  C8. The message "GOLD buy @1950 sl 1940 tp1 1960 tp2 1970" gives exactly one signal:
  a buy of XAU_USD with both entry bounds 1950, stop 1940 and take-profits 1960 and 1970;
  with a balance of 10000 and the risk fraction 0.01 it is sized at +10 units.
\<close>

theorem gold_scenario:
  "parse_signals ''GOLD buy @1950 sl 1940 tp1 1960 tp2 1970'' =
     Inr [\<lparr>side = ''buy'', instrument = ''XAU_USD'', entry_min = Some (Fin 1950),
           entry_max = Some (Fin 1950), entry = None, sl = Some (Fin 1940),
           tps = [Fin 1960, Fin 1970]\<rparr>] \<and>
   RISK_PER_TRADE = fl (1 / 100) \<and>
   calc_units (Fin 10000)
     \<lparr>side = ''buy'', instrument = ''XAU_USD'', entry_min = Some (Fin 1950),
      entry_max = Some (Fin 1950), entry = None, sl = Some (Fin 1940),
      tps = [Fin 1960, Fin 1970]\<rparr> = Inr 10"
proof (intro conjI)
  show "parse_signals ''GOLD buy @1950 sl 1940 tp1 1960 tp2 1970'' =
     Inr [\<lparr>side = ''buy'', instrument = ''XAU_USD'', entry_min = Some (Fin 1950),
           entry_max = Some (Fin 1950), entry = None, sl = Some (Fin 1940),
           tps = [Fin 1960, Fin 1970]\<rparr>]"
    by code_simp
  show "RISK_PER_TRADE = fl (1 / 100)"
    by (simp add: RISK_PER_TRADE_def)
  show "calc_units (Fin 10000)
     \<lparr>side = ''buy'', instrument = ''XAU_USD'', entry_min = Some (Fin 1950),
      entry_max = Some (Fin 1950), entry = None, sl = Some (Fin 1940),
      tps = [Fin 1960, Fin 1970]\<rparr> = Inr 10"
    by code_simp
qed

text \<open>
  C10. In the message "nas100 buy" the window of the token is the whole text; no price
  range matches in it, and the single-number pattern finds the digits 100 of the token
  itself, at offset 3. The message gives one signal, a buy of NAS100_USD with both entry
  bounds 100.
\<close>

theorem nas100_digits_as_entry:
  "window (flatten ''nas100 buy'') ''nas100'' = Some ''nas100 buy'' \<and>
   search False PRICE_RANGE_RE ''nas100 buy'' = None \<and>
   map_option (\<lambda>m. (m_start m, grp m 1)) (search False SINGLE_RE ''nas100 buy'')
     = Some (3, ''100'') \<and>
   parse_signals ''nas100 buy'' =
     Inr [\<lparr>side = ''buy'', instrument = ''NAS100_USD'', entry_min = Some (Fin 100),
           entry_max = Some (Fin 100), entry = None, sl = None, tps = []\<rparr>]"
proof (intro conjI)
  show "window (flatten ''nas100 buy'') ''nas100'' = Some ''nas100 buy''"
    by code_simp
  show "search False PRICE_RANGE_RE ''nas100 buy'' = None"
    by code_simp
  show "map_option (\<lambda>m. (m_start m, grp m 1)) (search False SINGLE_RE ''nas100 buy'')
     = Some (3, ''100'')"
    by code_simp
  show "parse_signals ''nas100 buy'' =
     Inr [\<lparr>side = ''buy'', instrument = ''NAS100_USD'', entry_min = Some (Fin 100),
           entry_max = Some (Fin 100), entry = None, sl = None, tps = []\<rparr>]"
    by code_simp
qed

text \<open>
  C1. A numeral of an entry or stop field that does not convert is not kept inside its
  window. In the message "#EURUSD buy 1.05 #GOLD buy 1.2.3" the first window alone gives
  a signal and the second one raises; \<open>parse_signals\<close> raises with it and returns no
  signal at all.
\<close>

theorem malformed_entry_aborts_batch:
  "process_candidate (flatten ''#EURUSD buy 1.05 #GOLD buy 1.2.3'') (''eurusd'', ''EUR_USD'') =
     Inr (Some \<lparr>side = ''buy'', instrument = ''EUR_USD'', entry_min = Some (fl (105 / 100)),
                entry_max = Some (fl (105 / 100)), entry = None, sl = None, tps = []\<rparr>) \<and>
   process_candidate (flatten ''#EURUSD buy 1.05 #GOLD buy 1.2.3'') (''gold'', ''XAU_USD'') =
     Inl ValueError \<and>
   parse_signals ''#EURUSD buy 1.05 #GOLD buy 1.2.3'' = Inl ValueError"
proof (intro conjI)
  show "process_candidate (flatten ''#EURUSD buy 1.05 #GOLD buy 1.2.3'') (''eurusd'', ''EUR_USD'') =
     Inr (Some \<lparr>side = ''buy'', instrument = ''EUR_USD'', entry_min = Some (fl (105 / 100)),
                entry_max = Some (fl (105 / 100)), entry = None, sl = None, tps = []\<rparr>)"
    by code_simp
  show "process_candidate (flatten ''#EURUSD buy 1.05 #GOLD buy 1.2.3'') (''gold'', ''XAU_USD'') =
     Inl ValueError"
    by code_simp
  show "parse_signals ''#EURUSD buy 1.05 #GOLD buy 1.2.3'' = Inl ValueError"
    by code_simp
qed

end
